theory Spec2Isabelle
  imports Main "HOL-Library.Option_ord"
begin

section \<open>The TiDB vector store adapter (mem0/vector_stores/tidb.py)\<close>

text \<open>
  The adapter is a thin layer of Python over SQL statements. Its own logic is embedded
  function by function: how the WHERE clause is put together from the filter mapping, what
  is done with the rows that come back, the defaults of \<open>insert\<close>, the partial
  \<open>update\<close>. A statement is a text with \<open>%s\<close> placeholders and a list of
  arguments, handed to \<open>cursor.execute\<close>. Three things happen to it there.

  \<^item> The client library puts the arguments into the text with Python's \<open>%\<close>
    operator. The text of \<open>search\<close> and \<open>list\<close> holds the filter keys, spliced
    in by the adapter, so a \<open>%\<close> in a key is read as a conversion specifier. The
    scan of the keys is modelled as CPython does it.
  \<^item> A statement whose keys are plain member names is the statement the adapter means,
    and gets its relational reading over the table, a list of rows in scan order: WHERE
    is a filter, ORDER BY a sort with SQL NULL first, LIMIT a prefix, a comparison with
    SQL NULL is not true, a negative LIMIT and a duplicate primary key are rejected by
    the engine, and a statement takes effect as a whole or not at all. Identifiers are
    compared as plain strings. The scalar functions it calls are parameters, collected
    in the record \<open>engine\<close>: \<open>VEC_COSINE_DISTANCE\<close>, \<open>JSON_EXTRACT\<close> on a
    path, and the comparison \<open>=\<close> of an extracted JSON value with a text parameter.
  \<^item> A statement with any other key (a quote, a dot, a blank) is a text the adapter
    does not control: what the engine's parser makes of it is a parameter of the model
    as well, \<open>spliced_search\<close> and \<open>spliced_list\<close>, of which nothing is assumed
    but that the rows it answers with are rows of the table.

  Every theorem holds for every engine. A vector is a value of a type \<open>'v\<close> that
  only the engine reads, a distance a value of a linearly ordered type \<open>'d\<close>. The
  JSON text that travels between the adapter and the engine is not modelled: a column
  holds the JSON document itself. The name of the collection, spliced into every
  statement, is taken to be a plain table name. Failures of the connection are outside
  the model.
\<close>

subsection \<open>Values\<close>

text \<open>A JSON document, as the payload column stores it.\<close>

datatype json =
    JNull
  | JBool bool
  | JInt int
  | JString string
  | JArray "json list"
  | JObject "(string \<times> json) list"

text \<open>
  A payload is a Python \<open>dict\<close> with string keys (\<open>payloads: List[Dict]\<close>,
  \<open>payload: Dict\<close>): an association list, read with \<open>map_of\<close>.
\<close>

type_synonym pydict = "(string \<times> json) list"

text \<open>
  The values of a filter mapping are scalars (section 3 of the specification); floats are
  left out, since their \<open>str\<close> is a matter of floating point.
\<close>

datatype pyscalar = PNone | PBool bool | PInt int | PStr string


text \<open>Python's \<open>str(value)\<close> on a scalar; an integer is printed in decimal.\<close>

fun digits :: "nat \<Rightarrow> string" where
  "digits n =
     (if n < 10 then [''0123456789'' ! n]
      else digits (n div 10) @ [''0123456789'' ! (n mod 10)])"

declare digits.simps [simp del]

fun py_str :: "pyscalar \<Rightarrow> string" where
  "py_str PNone = ''None''"
| "py_str (PBool b) = (if b then ''True'' else ''False'')"
| "py_str (PInt i) = (if i < 0 then CHR ''-'' # digits (nat (- i)) else digits (nat i))"
| "py_str (PStr s) = s"

text \<open>The exceptions the modelled paths can raise.\<close>

datatype error =
    TypeError         \<comment> \<open>\<open>float(None)\<close>; \<open>query % args\<close>\<close>
  | ValueError        \<comment> \<open>\<open>query % args\<close>\<close>
  | IndexError        \<comment> \<open>\<open>ids[i]\<close>, \<open>payloads[i]\<close> out of range\<close>
  | IntegrityError    \<comment> \<open>the engine: duplicate primary key\<close>
  | ProgrammingError  \<comment> \<open>the engine: a statement it cannot read, a negative LIMIT\<close>

subsection \<open>The table and the engine\<close>

text \<open>
  The table of \<open>create_col\<close>: \<open>id VARCHAR(36) PRIMARY KEY, vector JSON NOT NULL,
  payload JSON\<close>. The payload column is nullable; \<open>insert\<close> and \<open>update\<close> are
  its only writers and both store the \<open>json.dumps\<close> of a dict, so it holds SQL NULL or
  a JSON object.
\<close>

record 'v row =
  row_id :: string
  row_vector :: 'v
  row_payload :: "pydict option"

type_synonym 'v table = "'v row list"

text \<open>
  The engine. The first three fields are the scalar functions of a well-formed statement.
  The last two answer a statement of \<open>search\<close> or \<open>list\<close> whose WHERE clause was
  made with keys that are not plain member names, given as the pairs of key and
  parameter: an error, or rows.
\<close>

record ('v, 'd) engine =
  vec_cosine_distance :: "'v \<Rightarrow> 'v \<Rightarrow> 'd option"
  json_extract :: "pydict \<Rightarrow> string \<Rightarrow> json option"
  json_equals :: "json \<Rightarrow> string \<Rightarrow> bool"
  spliced_search :: "(string \<times> string) list \<Rightarrow> 'v \<Rightarrow> int \<Rightarrow> 'v row list \<Rightarrow> error + 'v row list"
  spliced_list :: "(string \<times> string) list \<Rightarrow> int \<Rightarrow> 'v row list \<Rightarrow> error + 'v row list"

text \<open>
  One condition of a WHERE clause, \<open>JSON_EXTRACT(payload, '<path>') = %s\<close>, is the
  pair of its path and its parameter. It is true of a row when the payload is not NULL,
  the extraction is not NULL and the engine finds the extracted value equal to the
  parameter. The conditions are joined by AND; no WHERE clause selects every row.
\<close>

fun condition_true :: "('v, 'd) engine \<Rightarrow> pydict option \<Rightarrow> string \<times> string \<Rightarrow> bool" where
  "condition_true eng None (path, param) = False"
| "condition_true eng (Some d) (path, param) =
     (case json_extract eng d path of
        None \<Rightarrow> False
      | Some x \<Rightarrow> json_equals eng x param)"

fun where_true :: "('v, 'd) engine \<Rightarrow> (string \<times> string) list option \<Rightarrow> 'v row \<Rightarrow> bool" where
  "where_true eng None r = True"
| "where_true eng (Some conds) r = list_all (condition_true eng (row_payload r)) conds"

text \<open>
  \<open>SELECT id, VEC_COSINE_DISTANCE(vector, q) AS distance, payload FROM t [WHERE ...]
  ORDER BY distance LIMIT n\<close>.
\<close>

definition select_search ::
  "('v, 'd::linorder) engine \<Rightarrow> 'v \<Rightarrow> (string \<times> string) list option \<Rightarrow> int \<Rightarrow> 'v table
     \<Rightarrow> error + (string \<times> 'd option \<times> pydict option) list" where
  "select_search eng q conds n tbl =
     (if n < 0 then Inl ProgrammingError
      else Inr (take (nat n)
             (sort_key (\<lambda>(i, d, p). d)
                (map (\<lambda>r. (row_id r, vec_cosine_distance eng (row_vector r) q, row_payload r))
                   (filter (where_true eng conds) tbl)))))"

text \<open>\<open>SELECT id, vector, payload FROM t [WHERE ...] LIMIT n\<close>.\<close>

definition select_list ::
  "('v, 'd) engine \<Rightarrow> (string \<times> string) list option \<Rightarrow> int \<Rightarrow> 'v table
     \<Rightarrow> error + (string \<times> 'v \<times> pydict option) list" where
  "select_list eng conds n tbl =
     (if n < 0 then Inl ProgrammingError
      else Inr (take (nat n)
             (map (\<lambda>r. (row_id r, row_vector r, row_payload r))
                (filter (where_true eng conds) tbl))))"

text \<open>\<open>SELECT id, vector, payload FROM t WHERE id = %s\<close>, then \<open>fetchone()\<close>.\<close>

definition select_by_id :: "string \<Rightarrow> 'v table \<Rightarrow> (string \<times> 'v \<times> pydict option) option" where
  "select_by_id vector_id tbl =
     (case filter (\<lambda>r. row_id r = vector_id) tbl of
        [] \<Rightarrow> None
      | r # _ \<Rightarrow> Some (row_id r, row_vector r, row_payload r))"

text \<open>\<open>DELETE FROM t WHERE id = %s\<close>.\<close>

definition delete_by_id :: "string \<Rightarrow> 'v table \<Rightarrow> 'v table" where
  "delete_by_id vector_id tbl = filter (\<lambda>r. row_id r \<noteq> vector_id) tbl"

text \<open>\<open>UPDATE t SET <assignments> WHERE id = %s\<close>.\<close>

datatype 'v assignment = SetVector 'v | SetPayload pydict

fun assign :: "'v assignment \<Rightarrow> 'v row \<Rightarrow> 'v row" where
  "assign (SetVector v) r = r\<lparr>row_vector := v\<rparr>"
| "assign (SetPayload p) r = r\<lparr>row_payload := Some p\<rparr>"

definition update_by_id :: "'v assignment list \<Rightarrow> string \<Rightarrow> 'v table \<Rightarrow> 'v table" where
  "update_by_id updates vector_id tbl =
     map (\<lambda>r. if row_id r = vector_id then fold assign updates r else r) tbl"


subsection \<open>The statement text and its arguments\<close>

text \<open>
  \<open>cursor.execute(query, args)\<close> computes \<open>query % tuple(conn.literal(a) for a in
  args)\<close>. A literal is a text: for a \<open>str\<close> the quoted and escaped string, of two
  characters at least, for an \<open>int\<close> its decimal digits.
\<close>

datatype literal = Text | Number int

definition single_character :: "literal \<Rightarrow> bool" where
  "single_character a = (case a of Text \<Rightarrow> False | Number i \<Rightarrow> 0 \<le> i \<and> i \<le> 9)"

text \<open>
  Python's \<open>%\<close> operator with a tuple on the right, as CPython's
  \<open>unicode_format_arg\<close> reads one conversion specifier after a \<open>%\<close>: a
  \<open>(\<close> asks for a mapping; then flags, a width, a precision, a length modifier and
  the conversion character. \<open>*\<close> takes an argument that must be an \<open>int\<close>, and
  every argument here is a text. The bounds are those of a 64-bit build.
\<close>

definition flag_char :: "char \<Rightarrow> bool" where
  "flag_char c = (c \<in> set ''-+ #0'')"

definition digit_char :: "char \<Rightarrow> bool" where
  "digit_char c = (c \<in> set ''0123456789'')"

definition decimal :: "string \<Rightarrow> nat" where
  "decimal ds = foldl (\<lambda>n c. 10 * n + (of_char c - 48)) 0 ds"

definition PY_SSIZE_T_MAX :: nat where
  "PY_SSIZE_T_MAX = 2 ^ 63 - 1"

definition INT_MAX :: nat where
  "INT_MAX = 2 ^ 31 - 1"

definition starred :: "string \<Rightarrow> bool" where
  "starred cs = (case cs of [] \<Rightarrow> False | c # _ \<Rightarrow> c = CHR ''*'')"

definition skip_length :: "string \<Rightarrow> string" where
  "skip_length cs = (case cs of [] \<Rightarrow> [] | c # rest \<Rightarrow> if c \<in> set ''hlL'' then rest else cs)"

text \<open>
  The conversion character: what is written, the rest of the key, the arguments left.
  \<open>%\<close> writes a percent sign; \<open>s\<close>, \<open>r\<close> and \<open>a\<close> take any argument;
  \<open>c\<close> takes a text of one character; the numeric conversions refuse a text; any
  other character is unsupported. Where the key ends, the next character of the
  statement is the quote that closes the path, which is unsupported too. What a taken
  argument writes is left out: the arguments then run out before the statement ends
  (lemma \<open>format_statement_keeps_arguments\<close>), and no text reaches the engine.
\<close>

fun conversion :: "string \<Rightarrow> literal list \<Rightarrow> error + (string \<times> string \<times> literal list)" where
  "conversion [] args = Inl ValueError"
| "conversion (c # rest) args =
     (if c = CHR ''%'' then Inr (''%'', rest, args)
      else if c \<in> set ''sra'' then
        (case args of [] \<Rightarrow> Inl TypeError | a # args1 \<Rightarrow> Inr ([], rest, args1))
      else if c = CHR ''c'' then
        (case args of
           [] \<Rightarrow> Inl TypeError
         | a # args1 \<Rightarrow> if single_character a then Inr ([], rest, args1) else Inl TypeError)
      else if c \<in> set ''diouxXeEfFgG'' then Inl TypeError
      else Inl ValueError)"

definition precision_and_conversion ::
  "string \<Rightarrow> literal list \<Rightarrow> error + (string \<times> string \<times> literal list)" where
  "precision_and_conversion cs args =
     (if cs \<noteq> [] \<and> hd cs = CHR ''.'' then
        (if starred (tl cs) then Inl TypeError
         else if decimal (takeWhile digit_char (tl cs)) > INT_MAX then Inl ValueError
         else conversion (skip_length (dropWhile digit_char (tl cs))) args)
      else conversion (skip_length cs) args)"

definition conversion_spec ::
  "string \<Rightarrow> literal list \<Rightarrow> error + (string \<times> string \<times> literal list)" where
  "conversion_spec cs args =
     (if cs \<noteq> [] \<and> hd cs = CHR ''('' then Inl TypeError
      else if starred (dropWhile flag_char cs) then Inl TypeError
      else if decimal (takeWhile digit_char (dropWhile flag_char cs)) > PY_SSIZE_T_MAX
        then Inl ValueError
      else precision_and_conversion (dropWhile digit_char (dropWhile flag_char cs)) args)"

text \<open>
  The scan of one spliced key, from left to right: the key as the statement will carry it
  and the arguments left, or the exception. After a conversion specifier the scan goes on
  behind it: \<open>skip\<close> counts the characters of the specifier still to pass over.
\<close>

fun format_key_from :: "nat \<Rightarrow> string \<Rightarrow> literal list \<Rightarrow> error + (string \<times> literal list)" where
  "format_key_from skip [] args = Inr ([], args)"
| "format_key_from skip (c # cs) args =
     (if 0 < skip then format_key_from (skip - 1) cs args
      else if c = CHR ''%'' then
        (case conversion_spec cs args of
           Inl e \<Rightarrow> Inl e
         | Inr (out, rest, args1) \<Rightarrow>
             (case format_key_from (length cs - length rest) cs args1 of
                Inl e \<Rightarrow> Inl e
              | Inr (key', args2) \<Rightarrow> Inr (out @ key', args2)))
      else
        (case format_key_from 0 cs args of
           Inl e \<Rightarrow> Inl e
         | Inr (key', args1) \<Rightarrow> Inr (c # key', args1)))"

definition format_key :: "string \<Rightarrow> literal list \<Rightarrow> error + (string \<times> literal list)" where
  "format_key key args = format_key_from 0 key args"

text \<open>
  The conditions \<open>JSON_EXTRACT(payload, '$.<key>') = %s\<close>, joined by \<open>AND\<close>:
  each is the pair of its key and its parameter, and its \<open>%s\<close> takes one argument,
  or finds none left (\<open>not enough arguments for format string\<close>).
\<close>

fun format_conditions ::
  "(string \<times> string) list \<Rightarrow> literal list \<Rightarrow> error + (string list \<times> literal list)" where
  "format_conditions [] args = Inr ([], args)"
| "format_conditions ((key, param) # conds) args =
     (case format_key key args of
        Inl e \<Rightarrow> Inl e
      | Inr (key', args1) \<Rightarrow>
          (case args1 of
             [] \<Rightarrow> Inl TypeError
           | a # args2 \<Rightarrow>
               (case format_conditions conds args2 of
                  Inl e \<Rightarrow> Inl e
                | Inr (keys, args3) \<Rightarrow> Inr (key' # keys, args3))))"

text \<open>
  The whole statement of \<open>search\<close> or \<open>list\<close>, after the \<open>%s\<close> of the query
  vector that \<open>search\<close> has first: the conditions, then \<open>LIMIT %s\<close>, against one
  text for each parameter and the number of the limit. Arguments left over are an
  error as well (\<open>not all arguments converted\<close>). The result is the keys as the
  engine will read them.
\<close>

definition format_statement :: "(string \<times> string) list \<Rightarrow> int \<Rightarrow> error + string list" where
  "format_statement conds n =
     (case format_conditions conds (map (\<lambda>c. Text) conds @ [Number n]) of
        Inl e \<Rightarrow> Inl e
      | Inr (keys, args) \<Rightarrow>
          (case args of
             [] \<Rightarrow> Inl TypeError
           | a # rest \<Rightarrow> if rest = [] then Inr keys else Inl TypeError))"

text \<open>
  A plain member name: letters, digits and the underscore, not starting with a digit.
  For such a key the path \<open>$.key\<close> names the member \<open>key\<close> and the text around
  it is the adapter's.
\<close>

definition plain_char :: "char \<Rightarrow> bool" where
  "plain_char c =
     (c \<in> set ''abcdefghijklmnopqrstuvwxyzABCDEFGHIJKLMNOPQRSTUVWXYZ0123456789_'')"

definition plain_key :: "string \<Rightarrow> bool" where
  "plain_key key = (key \<noteq> [] \<and> \<not> digit_char (hd key) \<and> list_all plain_char key)"

text \<open>The path the adapter writes for a key: \<open>'$.{key}'\<close>.\<close>

definition member_path :: "string \<Rightarrow> string" where
  "member_path key = ''$.'' @ key"

text \<open>
  \<open>cursor.execute\<close> on the statement of \<open>search\<close>, then \<open>fetchall()\<close>: the
  client's formatting first; then the engine, with the relational reading when every
  key is plain and with \<open>spliced_search\<close> otherwise. No conditions means no WHERE.
\<close>

definition execute_search ::
  "('v, 'd::linorder) engine \<Rightarrow> 'v \<Rightarrow> (string \<times> string) list option \<Rightarrow> int \<Rightarrow> 'v table
     \<Rightarrow> error + (string \<times> 'd option \<times> pydict option) list" where
  "execute_search eng q conds n tbl =
     (case format_statement (case conds of None \<Rightarrow> [] | Some cs \<Rightarrow> cs) n of
        Inl e \<Rightarrow> Inl e
      | Inr keys \<Rightarrow>
          if list_all plain_key keys then
            select_search eng q
              (map_option (\<lambda>cs. map (\<lambda>(key, param). (member_path key, param)) (zip keys (map snd cs))) conds)
              n tbl
          else
            (case spliced_search eng (zip keys (map snd (case conds of None \<Rightarrow> [] | Some cs \<Rightarrow> cs))) q n tbl of
               Inl e \<Rightarrow> Inl e
             | Inr rows \<Rightarrow>
                 Inr (map (\<lambda>r. (row_id r, vec_cosine_distance eng (row_vector r) q, row_payload r))
                        (filter (\<lambda>r. r \<in> set tbl) rows))))"

text \<open>The same for the statement of \<open>list\<close>.\<close>

definition execute_list ::
  "('v, 'd) engine \<Rightarrow> (string \<times> string) list option \<Rightarrow> int \<Rightarrow> 'v table
     \<Rightarrow> error + (string \<times> 'v \<times> pydict option) list" where
  "execute_list eng conds n tbl =
     (case format_statement (case conds of None \<Rightarrow> [] | Some cs \<Rightarrow> cs) n of
        Inl e \<Rightarrow> Inl e
      | Inr keys \<Rightarrow>
          if list_all plain_key keys then
            select_list eng
              (map_option (\<lambda>cs. map (\<lambda>(key, param). (member_path key, param)) (zip keys (map snd cs))) conds)
              n tbl
          else
            (case spliced_list eng (zip keys (map snd (case conds of None \<Rightarrow> [] | Some cs \<Rightarrow> cs))) n tbl of
               Inl e \<Rightarrow> Inl e
             | Inr rows \<Rightarrow>
                 Inr (map (\<lambda>r. (row_id r, row_vector r, row_payload r))
                        (filter (\<lambda>r. r \<in> set tbl) rows))))"

subsection \<open>The adapter\<close>

text \<open>\<open>class OutputData\<close>: \<open>id: Optional[str]\<close>, \<open>score: Optional[float]\<close>,
  \<open>payload: Optional[dict]\<close>; \<open>None\<close> is Python's None.\<close>

record 'd OutputData =
  id' :: "string option"
  score :: "'d option"
  payload :: "pydict option"

text \<open>\<open>json.loads(row[2]) if row[2] else {}\<close>: the column comes back as None for
  SQL NULL and as a non-empty JSON text otherwise.\<close>

fun decode_payload :: "pydict option \<Rightarrow> pydict" where
  "decode_payload None = []"
| "decode_payload (Some d) = d"

text \<open>
  The loop over \<open>filters.items()\<close>, shared by \<open>search\<close> and \<open>list\<close>: the key is
  spliced into the text of the condition, the value goes through \<open>str\<close> into the
  parameters. A condition is the pair of the two. Both \<open>None\<close> and the empty dict
  fail \<open>if filters:\<close>, and an empty list of conditions adds no WHERE.
\<close>

definition filter_conditions ::
  "(string \<times> pyscalar) list option \<Rightarrow> (string \<times> string) list option" where
  "filter_conditions filters =
     (case filters of
        None \<Rightarrow> None
      | Some fs \<Rightarrow>
          if fs = [] then None
          else (let conds = map (\<lambda>(key, v). (key, py_str v)) fs
                in if conds = [] then None else Some conds))"

text \<open>A list comprehension whose element expression can raise stops at the first raise.\<close>

fun comprehension :: "('a \<Rightarrow> error + 'b) \<Rightarrow> 'a list \<Rightarrow> error + 'b list" where
  "comprehension f [] = Inr []"
| "comprehension f (x # xs) =
     (case f x of
        Inl e \<Rightarrow> Inl e
      | Inr y \<Rightarrow> (case comprehension f xs of Inl e \<Rightarrow> Inl e | Inr ys \<Rightarrow> Inr (y # ys)))"

text \<open>\<open>OutputData(id=str(row[0]), score=float(row[1]), payload=...)\<close> in
  \<open>search\<close>; \<open>float(None)\<close> raises TypeError.\<close>

fun search_record :: "string \<times> 'd option \<times> pydict option \<Rightarrow> error + 'd OutputData" where
  "search_record (i, None, p) = Inl TypeError"
| "search_record (i, Some d, p) =
     Inr \<lparr>id' = Some i, score = Some d, payload = Some (decode_payload p)\<rparr>"

text \<open>\<open>OutputData(id=str(row[0]), score=None, payload=...)\<close> in \<open>get\<close> and
  \<open>list\<close>.\<close>

fun plain_record :: "string \<times> 'v \<times> pydict option \<Rightarrow> 'd OutputData" where
  "plain_record (i, v, p) = \<lparr>id' = Some i, score = None, payload = Some (decode_payload p)\<rparr>"

text \<open>\<open>TiDB.search\<close>. The parameter \<open>query\<close> is accepted and not read.\<close>

definition search ::
  "('v, 'd::linorder) engine \<Rightarrow> string \<Rightarrow> 'v \<Rightarrow> int \<Rightarrow> (string \<times> pyscalar) list option
     \<Rightarrow> 'v table \<Rightarrow> error + 'd OutputData list" where
  "search eng query vectors limit filters tbl =
     (case execute_search eng vectors (filter_conditions filters) limit tbl of
        Inl e \<Rightarrow> Inl e
      | Inr results \<Rightarrow> comprehension search_record results)"

text \<open>\<open>TiDB.list\<close>: the comprehension is wrapped in one more list,
  \<open>return [[ ... for row in results]]\<close>.\<close>

definition list_tidb ::
  "('v, 'd) engine \<Rightarrow> (string \<times> pyscalar) list option \<Rightarrow> int \<Rightarrow> 'v table
     \<Rightarrow> error + 'd OutputData list list" where
  "list_tidb eng filters limit tbl =
     (case execute_list eng (filter_conditions filters) limit tbl of
        Inl e \<Rightarrow> Inl e
      | Inr results \<Rightarrow> Inr [map plain_record results])"

text \<open>\<open>TiDB.get\<close>.\<close>

definition get :: "string \<Rightarrow> 'v table \<Rightarrow> error + 'd OutputData option" where
  "get vector_id tbl =
     (case select_by_id vector_id tbl of
        None \<Rightarrow> Inr None
      | Some result \<Rightarrow> Inr (Some (plain_record result)))"

text \<open>\<open>TiDB.delete\<close>.\<close>

definition delete :: "string \<Rightarrow> 'v table \<Rightarrow> error + 'v table" where
  "delete vector_id tbl = Inr (delete_by_id vector_id tbl)"

text \<open>\<open>TiDB.update\<close>: \<open>updates\<close> collects an assignment for each argument that
  is not None; with none collected the method returns before any statement. The argument
  \<open>payload\<close> is written \<open>payload'\<close>, the plain name being the field of
  \<open>OutputData\<close>.\<close>

definition update :: "string \<Rightarrow> 'v option \<Rightarrow> pydict option \<Rightarrow> 'v table \<Rightarrow> error + 'v table" where
  "update vector_id vector payload' tbl =
     (let updates =
            (case vector of None \<Rightarrow> [] | Some v \<Rightarrow> [SetVector v]) @
            (case payload' of None \<Rightarrow> [] | Some p \<Rightarrow> [SetPayload p])
      in if updates = [] then Inr tbl
         else Inr (update_by_id updates vector_id tbl))"



subsection \<open>Filters as predicates on rows\<close>

text \<open>
  What the WHERE clause of \<open>search\<close> and \<open>list\<close> comes to, entry by entry of
  the filter mapping: the engine extracts \<open>$.key\<close> from the payload and compares what
  it finds with the text \<open>str(value)\<close>.
\<close>

definition matches_filters ::
  "('v, 'd) engine \<Rightarrow> (string \<times> pyscalar) list option \<Rightarrow> 'v row \<Rightarrow> bool" where
  "matches_filters eng filters r =
     (case filters of
        None \<Rightarrow> True
      | Some fs \<Rightarrow>
          (\<forall>(key, v)\<in>set fs.
             case row_payload r of
               None \<Rightarrow> False
             | Some d \<Rightarrow>
                 (case json_extract eng d (member_path key) of
                    None \<Rightarrow> False
                  | Some x \<Rightarrow> json_equals eng x (py_str v))))"


text \<open>The filter mappings all of whose keys are plain member names.\<close>

definition plain_filters :: "(string \<times> pyscalar) list option \<Rightarrow> bool" where
  "plain_filters filters =
     (case filters of None \<Rightarrow> True | Some fs \<Rightarrow> list_all (\<lambda>(key, v). plain_key key) fs)"

subsection \<open>The configuration (mem0/configs/vector_stores/tidb.py)\<close>

text \<open>
  \<open>TiDBConfig\<close> declares thirteen fields, each with its type and, but for the four
  required ones, a default, and two validators of mode \<open>before\<close>. The validators
  receive the mapping of the supplied values (\<open>values: Dict[str, Any]\<close>) and return
  it unchanged or raise ValueError; then pydantic checks each supplied value against
  the declared type of its field. Every failure leaves the constructor as a pydantic
  ValidationError.
\<close>

type_synonym config_values = "(string \<times> pyscalar) list"

datatype config_error =
    MissingRequiredFields "string list"   \<comment> \<open>\<open>check_required_fields\<close>\<close>
  | ExtraFieldsNotAllowed "string set"    \<comment> \<open>\<open>validate_extra_fields\<close>\<close>
  | FieldsNotValid "string list"          \<comment> \<open>the fields whose value has not the declared type\<close>

text \<open>Python's truth value of a scalar, as \<open>not x\<close> reads it.\<close>

fun truthy :: "pyscalar \<Rightarrow> bool" where
  "truthy PNone = False"
| "truthy (PBool b) = b"
| "truthy (PInt i) = (i \<noteq> 0)"
| "truthy (PStr s) = (s \<noteq> [])"

text \<open>\<open>values.get(field)\<close>: None when the key is absent.\<close>

definition values_get :: "config_values \<Rightarrow> string \<Rightarrow> pyscalar" where
  "values_get values field = (case map_of values field of None \<Rightarrow> PNone | Some v \<Rightarrow> v)"

definition required_fields :: "string list" where
  "required_fields = [''host'', ''user'', ''password'', ''database'']"

text \<open>The declared fields: name, type and default (none for a required field).\<close>

datatype field_type = TStr | TInt | TBool | TOptional field_type

definition declared_fields :: "(string \<times> field_type \<times> pyscalar option) list" where
  "declared_fields =
     [(''host'', TStr, None),
      (''port'', TInt, Some (PInt 4000)),
      (''user'', TStr, None),
      (''password'', TStr, None),
      (''database'', TStr, None),
      (''collection_name'', TStr, Some (PStr ''mem0'')),
      (''embedding_model_dims'', TOptional TInt, Some (PInt 1536)),
      (''ssl_disabled'', TBool, Some (PBool False)),
      (''ssl_ca'', TOptional TStr, Some PNone),
      (''ssl_cert'', TOptional TStr, Some PNone),
      (''ssl_key'', TOptional TStr, Some PNone),
      (''ssl_verify_cert'', TBool, Some (PBool True)),
      (''ssl_verify_identity'', TBool, Some (PBool True))]"

text \<open>\<open>cls.model_fields.keys()\<close>: the names of the declared fields.\<close>

definition model_fields :: "string list" where
  "model_fields = map fst declared_fields"

definition check_required_fields :: "config_values \<Rightarrow> config_error + config_values" where
  "check_required_fields values =
     (let missing_fields = filter (\<lambda>field. \<not> truthy (values_get values field)) required_fields
      in if missing_fields \<noteq> [] then Inl (MissingRequiredFields missing_fields)
         else Inr values)"

definition validate_extra_fields :: "config_values \<Rightarrow> config_error + config_values" where
  "validate_extra_fields values =
     (let allowed_fields = set model_fields;
          input_fields = set (map fst values);
          extra_fields = input_fields - allowed_fields
      in if extra_fields \<noteq> {} then Inl (ExtraFieldsNotAllowed extra_fields)
         else Inr values)"

text \<open>
  Pydantic calls the validators of mode \<open>before\<close> last declared first. The order
  decides only which of the two errors is reported when both apply.
\<close>

definition before_validators :: "config_values \<Rightarrow> config_error + config_values" where
  "before_validators values =
     (case validate_extra_fields values of
        Inl e \<Rightarrow> Inl e
      | Inr values1 \<Rightarrow> check_required_fields values1)"

text \<open>
  Pydantic's validation of one value against a declared type, in its default (lax) mode,
  on the scalars of this model: the validated value, or None when the value is refused.
  A \<open>str\<close> field takes a string only; an \<open>int\<close> field an int, and a bool as 0 or
  1; a \<open>bool\<close> field a bool, and the ints 0 and 1; \<open>Optional\<close> adds None. Which
  texts an \<open>int\<close> or a \<open>bool\<close> field reads as a number or a truth value is the
  library's table, a parameter here.
\<close>

record pydantic =
  text_as_int :: "string \<Rightarrow> int option"
  text_as_bool :: "string \<Rightarrow> bool option"

fun validate_field :: "pydantic \<Rightarrow> field_type \<Rightarrow> pyscalar \<Rightarrow> pyscalar option" where
  "validate_field lib TStr v = (case v of PStr s \<Rightarrow> Some (PStr s) | _ \<Rightarrow> None)"
| "validate_field lib TInt v =
     (case v of
        PInt i \<Rightarrow> Some (PInt i)
      | PBool b \<Rightarrow> Some (PInt (if b then 1 else 0))
      | PStr s \<Rightarrow> map_option PInt (text_as_int lib s)
      | PNone \<Rightarrow> None)"
| "validate_field lib TBool v =
     (case v of
        PBool b \<Rightarrow> Some (PBool b)
      | PInt i \<Rightarrow> (if i = 0 then Some (PBool False) else if i = 1 then Some (PBool True) else None)
      | PStr s \<Rightarrow> map_option PBool (text_as_bool lib s)
      | PNone \<Rightarrow> None)"
| "validate_field lib (TOptional t) v =
     (case v of PNone \<Rightarrow> Some PNone | _ \<Rightarrow> validate_field lib t v)"

text \<open>
  One declared field of the validated model: the validated value when one is supplied,
  the default when none is, None when the value is refused or a required field is
  absent.
\<close>

fun field_value ::
  "pydantic \<Rightarrow> config_values \<Rightarrow> string \<times> field_type \<times> pyscalar option \<Rightarrow> pyscalar option" where
  "field_value lib values (name, ty, dflt) =
     (case map_of values name of
        None \<Rightarrow> dflt
      | Some v \<Rightarrow> validate_field lib ty v)"

definition validate_fields :: "pydantic \<Rightarrow> config_values \<Rightarrow> config_error + config_values" where
  "validate_fields lib values =
     (let refused = filter (\<lambda>f. field_value lib values f = None) declared_fields
      in if refused \<noteq> [] then Inl (FieldsNotValid (map fst refused))
         else Inr (map (\<lambda>f. (fst f, the (field_value lib values f))) declared_fields))"

text \<open>\<open>TiDBConfig(**values)\<close>: the validators, then the fields.\<close>

definition TiDBConfig :: "pydantic \<Rightarrow> config_values \<Rightarrow> config_error + config_values" where
  "TiDBConfig lib values =
     (case before_validators values of
        Inl e \<Rightarrow> Inl e
      | Inr values1 \<Rightarrow> validate_fields lib values1)"

text \<open>
  Modelled from the spec: the step from a configuration to an adapter, which the
  repository takes outside these two files. Section 6 has the validation "enforced before
  the adapter is constructed", section 7 the configuration error "raised before any
  connection is attempted". The adapter is constructed by \<open>TiDB.__init__\<close>, which
  opens one connection (\<open>self.conn = self._create_connection()\<close>). The second
  component counts the connections attempted.
\<close>

definition create_vector_store ::
  "pydantic \<Rightarrow> config_values \<Rightarrow> (config_error + config_values) \<times> nat" where
  "create_vector_store lib values =
     (case TiDBConfig lib values of
        Inl e \<Rightarrow> (Inl e, 0)
      | Inr config \<Rightarrow> (Inr config, 1))"

text \<open>
  A required field is missing or empty: the key is absent, or holds None or the empty
  string.
\<close>

definition missing_or_empty :: "config_values \<Rightarrow> string \<Rightarrow> bool" where
  "missing_or_empty values field =
     (case map_of values field of
        None \<Rightarrow> True
      | Some v \<Rightarrow> v = PNone \<or> v = PStr [])"

text \<open>A supplied value that pydantic refuses for the declared type of its field.\<close>

definition refused_value :: "pydantic \<Rightarrow> config_values \<Rightarrow> bool" where
  "refused_value lib values =
     (\<exists>(name, ty, dflt)\<in>set declared_fields.
        case map_of values name of
          None \<Rightarrow> False
        | Some v \<Rightarrow> validate_field lib ty v = None)"

subsection \<open>Concrete inputs\<close>

text \<open>
  A table of three rows, the second with a NULL payload, and an engine small enough to
  evaluate: integer vectors, the squared Euclidean distance (NULL when the lengths
  differ), the path \<open>$.key\<close> read as the member \<open>key\<close>, a JSON value equal to
  a text when it is that JSON string, and every statement with a key that is not plain
  refused.
\<close>

definition demo_table :: "int list table" where
  "demo_table =
     [\<lparr>row_id = ''a'', row_vector = [3, 0], row_payload = Some [(''k'', JString ''v'')]\<rparr>,
      \<lparr>row_id = ''b'', row_vector = [0, 1], row_payload = None\<rparr>,
      \<lparr>row_id = ''c'', row_vector = [1, 1], row_payload = Some [(''k'', JString ''v''), (''n'', JInt 5)]\<rparr>]"

definition demo_engine :: "(int list, int) engine" where
  "demo_engine =
     \<lparr>vec_cosine_distance =
        (\<lambda>u q. if length u = length q
                then Some (sum_list (map (\<lambda>(a, b). (a - b) * (a - b)) (zip u q)))
                else None),
      json_extract = (\<lambda>d path. map_of d (drop 2 path)),
      json_equals = (\<lambda>x s. x = JString s),
      spliced_search = (\<lambda>conds q n tbl. Inl ProgrammingError),
      spliced_list = (\<lambda>conds n tbl. Inl ProgrammingError)\<rparr>"




text \<open>
  A configuration that passes, one whose host is the number 5, and a library that reads
  no text as a number or a truth value.
\<close>

definition demo_config :: config_values where
  "demo_config =
     [(''host'', PStr ''db.example''), (''user'', PStr ''root''), (''password'', PStr ''pw''),
      (''database'', PStr ''test''), (''port'', PInt 4000)]"

definition number_host_config :: config_values where
  "number_host_config =
     [(''host'', PInt 5), (''user'', PStr ''root''), (''password'', PStr ''pw''),
      (''database'', PStr ''test'')]"

definition demo_pydantic :: pydantic where
  "demo_pydantic = \<lparr>text_as_int = (\<lambda>s. None), text_as_bool = (\<lambda>s. None)\<rparr>"

section \<open>Properties\<close>

subsection \<open>The client's formatting of a statement\<close>

lemma plain_char_not_percent: "plain_char c \<Longrightarrow> c \<noteq> CHR ''%''"
  by (auto simp: plain_char_def)

lemma format_key_from_no_percent:
  "CHR ''%'' \<notin> set key \<Longrightarrow> format_key_from 0 key args = Inr (key, args)"
  by (induction key) auto

lemma format_key_plain: "plain_key key \<Longrightarrow> format_key key args = Inr (key, args)"
proof -
  assume "plain_key key"
  then have "\<forall>c\<in>set key. plain_char c"
    by (simp add: plain_key_def list_all_iff)
  then have "CHR ''%'' \<notin> set key"
    using plain_char_not_percent by blast
  then show ?thesis
    by (simp add: format_key_def format_key_from_no_percent)
qed

lemma format_conditions_plain:
  "list_all (\<lambda>(key, param). plain_key key) conds \<Longrightarrow>
     format_conditions conds (map (\<lambda>c. Text) conds @ rest) = Inr (map fst conds, rest)"
  by (induction conds) (auto simp: format_key_plain)

lemma format_statement_plain:
  "list_all (\<lambda>(key, param). plain_key key) conds \<Longrightarrow>
     format_statement conds n = Inr (map fst conds)"
  by (simp add: format_statement_def format_conditions_plain)

lemma plain_conditions:
  assumes "plain_filters filters"
  shows "list_all (\<lambda>(key, param). plain_key key)
           (case filter_conditions filters of None \<Rightarrow> [] | Some cs \<Rightarrow> cs)"
proof (cases filters)
  case None
  then show ?thesis by (simp add: filter_conditions_def)
next
  case (Some fs)
  with assms have "list_all (\<lambda>(key, v). plain_key key) fs"
    by (simp add: plain_filters_def)
  then have "list_all (\<lambda>(key, param). plain_key key) (map (\<lambda>(key, v). (key, py_str v)) fs)"
    by (simp add: list_all_iff case_prod_unfold)
  with Some show ?thesis
    by (simp add: filter_conditions_def)
qed

text \<open>
  A statement that the client formats without an exception has taken no argument for a
  key: every \<open>%\<close> in its keys stood for a percent sign, whatever the arguments.
\<close>

lemma conversion_arguments:
  assumes "conversion cs args = Inr (out, rest, args1)"
  shows "length args1 \<le> length args"
    and "length args1 = length args \<Longrightarrow> conversion cs a = Inr (out, rest, a)"
  using assms by (cases cs; auto split: if_splits list.splits)+

lemma precision_and_conversion_arguments:
  assumes "precision_and_conversion cs args = Inr (out, rest, args1)"
  shows "length args1 \<le> length args"
    and "length args1 = length args \<Longrightarrow> precision_and_conversion cs a = Inr (out, rest, a)"
  using assms conversion_arguments
  by (auto simp: precision_and_conversion_def split: if_splits)

lemma conversion_spec_arguments:
  assumes "conversion_spec cs args = Inr (out, rest, args1)"
  shows "length args1 \<le> length args"
    and "length args1 = length args \<Longrightarrow> conversion_spec cs a = Inr (out, rest, a)"
  using assms precision_and_conversion_arguments
  by (auto simp: conversion_spec_def split: if_splits)

lemma format_key_from_arguments:
  "format_key_from skip cs args = Inr (key', args1) \<Longrightarrow>
     length args1 \<le> length args
     \<and> (length args1 = length args \<longrightarrow> (\<forall>a. format_key_from skip cs a = Inr (key', a)))"
proof (induction cs arbitrary: skip args key' args1)
  case Nil
  then show ?case by simp
next
  case (Cons c cs)
  show ?case
  proof (cases "0 < skip")
    case True
    with Cons.prems have "format_key_from (skip - 1) cs args = Inr (key', args1)" by simp
    from Cons.IH [OF this] True show ?thesis by simp
  next
    case False
    note skip = this
    show ?thesis
    proof (cases "c = CHR ''%''")
      case True
      with skip Cons.prems obtain out rest a1 k where
        spec: "conversion_spec cs args = Inr (out, rest, a1)"
        and more: "format_key_from (length cs - length rest) cs a1 = Inr (k, args1)"
        and key': "key' = out @ k"
        by (auto split: sum.splits)
      note s = conversion_spec_arguments [OF spec]
      from Cons.IH [OF more] have m1: "length args1 \<le> length a1"
        and m2: "length args1 = length a1 \<Longrightarrow> format_key_from (length cs - length rest) cs a = Inr (k, a)" for a
        by simp_all
      have le: "length args1 \<le> length args"
        using m1 s(1) by simp
      have "format_key_from skip (c # cs) a = Inr (key', a)" if "length args1 = length args" for a
      proof -
        from that m1 s(1) have e1: "length a1 = length args" and e2: "length args1 = length a1"
          by simp_all
        from s(2) [OF e1] m2 [OF e2] True skip key' show ?thesis by simp
      qed
      with le show ?thesis by blast
    next
      case False
      with skip Cons.prems obtain k where
        more: "format_key_from 0 cs args = Inr (k, args1)" and key': "key' = c # k"
        by (auto split: sum.splits)
      from Cons.IH [OF more] False skip key' show ?thesis by simp
    qed
  qed
qed

lemma format_conditions_arguments:
  "format_conditions conds args = Inr (keys, rest) \<Longrightarrow>
     length rest + length conds \<le> length args
     \<and> (length rest + length conds = length args \<longrightarrow>
          list_all2 (\<lambda>(key, param) key'. \<forall>a. format_key key a = Inr (key', a)) conds keys)"
proof (induction conds arbitrary: args keys rest)
  case Nil
  then show ?case by simp
next
  case (Cons cond conds)
  obtain key param where cond: "cond = (key, param)" by (cases cond)
  with Cons.prems obtain key' a1 x a2 ks where
    k: "format_key key args = Inr (key', a1)"
    and a1: "a1 = x # a2"
    and more: "format_conditions conds a2 = Inr (ks, rest)"
    and keys: "keys = key' # ks"
    by (auto split: sum.splits list.splits)
  from format_key_from_arguments [OF k [unfolded format_key_def]]
  have k1: "length a1 \<le> length args"
    and k2: "length a1 = length args \<Longrightarrow> format_key key a = Inr (key', a)" for a
    by (simp_all add: format_key_def)
  from Cons.IH [OF more] have m1: "length rest + length conds \<le> length a2"
    and m2: "length rest + length conds = length a2 \<Longrightarrow>
      list_all2 (\<lambda>(key, param) key'. \<forall>a. format_key key a = Inr (key', a)) conds ks"
    by simp_all
  have le: "length rest + length (cond # conds) \<le> length args"
    using k1 m1 a1 by simp
  have "list_all2 (\<lambda>(key, param) key'. \<forall>a. format_key key a = Inr (key', a)) (cond # conds) keys"
    if "length rest + length (cond # conds) = length args"
  proof -
    from that k1 m1 a1 have e1: "length a1 = length args"
      and e2: "length rest + length conds = length a2"
      by simp_all
    from k2 [OF e1] m2 [OF e2] cond keys show ?thesis by simp
  qed
  with le show ?case by blast
qed

lemma format_statement_keeps_arguments:
  assumes "format_statement conds n = Inr keys"
  shows "list_all2 (\<lambda>(key, param) key'. \<forall>a. format_key key a = Inr (key', a)) conds keys"
proof -
  from assms obtain x where
    "format_conditions conds (map (\<lambda>c. Text) conds @ [Number n]) = Inr (keys, [x])"
    by (auto simp: format_statement_def split: sum.splits list.splits if_splits)
  from format_conditions_arguments [OF this] show ?thesis by simp
qed

subsection \<open>Rows that come back from the engine\<close>


lemma search_records:
  assumes "list_all (\<lambda>x. fst (snd x) \<noteq> None) xs"
  shows "comprehension search_record xs =
           Inr (map (\<lambda>(i, d, p). \<lparr>id' = Some i, score = d, payload = Some (decode_payload p)\<rparr>) xs)"
  using assms by (induction xs) auto


lemma select_search_rows:
  assumes "select_search eng q conds n tbl = Inr results"
  shows "sorted (map (\<lambda>(i, d, p). d) results)"
    and "int (length results) \<le> n"
    and "\<forall>x\<in>set results. \<exists>r\<in>set tbl. where_true eng conds r
            \<and> x = (row_id r, vec_cosine_distance eng (row_vector r) q, row_payload r)"
proof -
  let ?rows = "map (\<lambda>r. (row_id r, vec_cosine_distance eng (row_vector r) q, row_payload r))
                 (filter (where_true eng conds) tbl)"
  from assms have n: "0 \<le> n" and res: "results = take (nat n) (sort_key (\<lambda>(i, d, p). d) ?rows)"
    by (auto simp: select_search_def split: if_splits)
  have "sorted (take (nat n) (map (\<lambda>(i, d, p). d) (sort_key (\<lambda>(i, d, p). d) ?rows)))"
    by (rule sorted_wrt_take) (rule sorted_sort_key)
  then show "sorted (map (\<lambda>(i, d, p). d) results)"
    by (simp add: res take_map)
  show "int (length results) \<le> n"
    using n by (simp add: res)
  have "set results \<subseteq> set ?rows"
    unfolding res using set_take_subset [of "nat n" "sort_key (\<lambda>(i, d, p). d) ?rows"] by simp
  then show "\<forall>x\<in>set results. \<exists>r\<in>set tbl. where_true eng conds r
            \<and> x = (row_id r, vec_cosine_distance eng (row_vector r) q, row_payload r)"
    by auto
qed

lemma select_list_rows:
  "0 \<le> n \<Longrightarrow> select_list eng conds n tbl =
     Inr (map (\<lambda>r. (row_id r, row_vector r, row_payload r))
            (take (nat n) (filter (where_true eng conds) tbl)))"
  by (simp add: select_list_def take_map)



lemma where_true_filter_conditions:
  "where_true eng
     (map_option (map (\<lambda>(key, param). (member_path key, param))) (filter_conditions filters)) r =
   matches_filters eng filters r"
proof (cases filters)
  case None
  then show ?thesis by (simp add: filter_conditions_def matches_filters_def)
next
  case (Some fs)
  have c: "condition_true eng p (path, param) =
             (case p of None \<Rightarrow> False
              | Some d \<Rightarrow> (case json_extract eng d path of
                   None \<Rightarrow> False | Some x \<Rightarrow> json_equals eng x param))" for p path param
    by (cases p) simp_all
  show ?thesis
  proof (cases "fs = []")
    case True
    with Some show ?thesis by (simp add: filter_conditions_def matches_filters_def)
  next
    case False
    with Some show ?thesis
      by (simp add: filter_conditions_def matches_filters_def list_all_iff c
            case_prod_unfold comp_def del: condition_true.simps cong: option.case_cong)
  qed
qed

lemma where_matches:
  "where_true eng
     (map_option (map (\<lambda>(key, param). (member_path key, param))) (filter_conditions filters)) =
   matches_filters eng filters"
  by (rule ext) (rule where_true_filter_conditions)

lemma key_paths:
  assumes "plain_filters filters"
  shows "format_statement (case filter_conditions filters of None \<Rightarrow> [] | Some cs \<Rightarrow> cs) n =
           Inr (map fst (case filter_conditions filters of None \<Rightarrow> [] | Some cs \<Rightarrow> cs))"
  using plain_conditions [OF assms] by (rule format_statement_plain)

lemma execute_list_plain:
  assumes "plain_filters filters"
  shows "execute_list eng (filter_conditions filters) n tbl =
           select_list eng
             (map_option (map (\<lambda>(key, param). (member_path key, param))) (filter_conditions filters))
             n tbl"
proof -
  have p: "list_all plain_key (map fst (case filter_conditions filters of None \<Rightarrow> [] | Some cs \<Rightarrow> cs))"
    using plain_conditions [OF assms] by (simp add: list_all_iff case_prod_unfold)
  show ?thesis
    unfolding execute_list_def key_paths [OF assms] using p
    by (cases "filter_conditions filters") (simp_all add: zip_map_fst_snd)
qed

lemma execute_search_plain:
  assumes "plain_filters filters"
  shows "execute_search eng q (filter_conditions filters) n tbl =
           select_search eng q
             (map_option (map (\<lambda>(key, param). (member_path key, param))) (filter_conditions filters))
             n tbl"
proof -
  have p: "list_all plain_key (map fst (case filter_conditions filters of None \<Rightarrow> [] | Some cs \<Rightarrow> cs))"
    using plain_conditions [OF assms] by (simp add: list_all_iff case_prod_unfold)
  show ?thesis
    unfolding execute_search_def key_paths [OF assms] using p
    by (cases "filter_conditions filters") (simp_all add: zip_map_fst_snd)
qed




text \<open>The definitions a concrete statement unfolds to.\<close>

lemmas format_defs =
  format_statement_def format_key_def conversion_spec_def precision_and_conversion_def
  flag_char_def digit_char_def decimal_def starred_def skip_length_def
  PY_SSIZE_T_MAX_def INT_MAX_def single_character_def plain_key_def plain_char_def

subsection \<open>Search\<close>

text \<open>
  C1, as stated: for every query vector, every positive limit and every filter mapping,
  \<open>search\<close> returns at most \<open>limit\<close> records in ascending order of distance.
  It does not return at all where the engine has no distance for a selected row (here
  a query vector of another length: the distance is NULL and \<open>float(None)\<close>
  raises), nor for the filter key \<open>%s\<close>, which the client's formatting reads as a
  placeholder of its own: the arguments run out.
\<close>

theorem search_ranked_counterexample:
  "search demo_engine ''q'' [0, 0, 0] 2 None demo_table = Inl TypeError
   \<and> search demo_engine ''q'' [0, 0] 2 (Some [(''%s'', PStr ''v'')]) demo_table = Inl TypeError"
  by (simp add: search_def execute_search_def select_search_def filter_conditions_def
      format_defs member_path_def demo_table_def demo_engine_def)

text \<open>
  C1, amended. For every query vector, every positive limit and every filter mapping (or
  none) whose keys are plain member names, when the engine computes a distance from the
  stored vector of every selected row to the query vector, \<open>search\<close> returns at
  most \<open>limit\<close> records, in ascending order of distance, and the score of each is
  the distance the engine computes between the stored vector of its row and the query
  vector.
\<close>

theorem search_ranked:
  assumes "0 < limit"
      and "plain_filters filters"
      and "\<forall>r\<in>set tbl. matches_filters eng filters r
             \<longrightarrow> vec_cosine_distance eng (row_vector r) vectors \<noteq> None"
  shows "\<exists>rs. search eng query vectors limit filters tbl = Inr rs
           \<and> int (length rs) \<le> limit
           \<and> sorted (map score rs)
           \<and> (\<forall>out\<in>set rs. \<exists>r\<in>set tbl. id' out = Some (row_id r)
                  \<and> score out = vec_cosine_distance eng (row_vector r) vectors
                  \<and> score out \<noteq> None)"
proof -
  let ?g = "\<lambda>(i, d, p). \<lparr>id' = Some i, score = d, payload = Some (decode_payload p)\<rparr>"
  let ?conds = "map_option (map (\<lambda>(key, param). (member_path key, param))) (filter_conditions filters)"
  obtain results where sel: "select_search eng vectors ?conds limit tbl = Inr results"
    using assms(1) by (simp add: select_search_def)
  note rows = select_search_rows [OF sel]
  have ex: "execute_search eng vectors (filter_conditions filters) limit tbl = Inr results"
    using sel by (simp add: execute_search_plain [OF assms(2)])
  have defined: "list_all (\<lambda>x. fst (snd x) \<noteq> None) results"
    unfolding list_all_iff using rows(3) assms(3) by (fastforce simp: where_true_filter_conditions)
  have s: "search eng query vectors limit filters tbl = Inr (map ?g results)"
    by (simp add: search_def ex search_records [OF defined])
  have "map score (map ?g results) = map (\<lambda>(i, d, p). d) results"
    by (simp add: case_prod_unfold comp_def)
  then have sorted: "sorted (map score (map ?g results))"
    using rows(1) by (simp only:)
  have each: "\<exists>r\<in>set tbl. id' out = Some (row_id r)
                \<and> score out = vec_cosine_distance eng (row_vector r) vectors
                \<and> score out \<noteq> None" if "out \<in> set (map ?g results)" for out
  proof -
    from that obtain x where x: "x \<in> set results" and out: "out = ?g x" by auto
    from rows(3) x obtain r where r: "r \<in> set tbl" "where_true eng ?conds r"
        "x = (row_id r, vec_cosine_distance eng (row_vector r) vectors, row_payload r)"
      by blast
    from r(2) have "matches_filters eng filters r"
      by (simp add: where_true_filter_conditions)
    with assms(3) r out show ?thesis by auto
  qed
  show ?thesis
    using s sorted rows(2) each by (intro exI [of _ "map ?g results"]) simp
qed

theorem search_ranked_witness:
  "search demo_engine ''q'' [0, 0] 2 (Some [(''k'', PStr ''v'')]) demo_table =
     Inr [\<lparr>id' = Some ''c'', score = Some 2, payload = Some [(''k'', JString ''v''), (''n'', JInt 5)]\<rparr>,
          \<lparr>id' = Some ''a'', score = Some 9, payload = Some [(''k'', JString ''v'')]\<rparr>]"
proof -
  have h1: "(0::int) < 2" by simp
  have h2: "plain_filters (Some [(''k'', PStr ''v'')])"
    by (simp add: plain_filters_def plain_key_def plain_char_def digit_char_def)
  have h3: "\<forall>r\<in>set demo_table. matches_filters demo_engine (Some [(''k'', PStr ''v'')]) r
             \<longrightarrow> vec_cosine_distance demo_engine (row_vector r) [0, 0] \<noteq> None"
    by (simp add: demo_table_def demo_engine_def)
  from search_ranked [OF h1 h2 h3, of "''q''"]
  show ?thesis
    by (simp add: search_def execute_search_def select_search_def filter_conditions_def
        format_defs member_path_def demo_table_def demo_engine_def)
qed

text \<open>
  C10. The result of \<open>search\<close> does not depend on its \<open>query\<close> string: two
  calls that differ in nothing else return the same.
\<close>

theorem search_ignores_query:
  "search eng query1 vectors limit filters tbl = search eng query2 vectors limit filters tbl"
  by (simp add: search_def)

subsection \<open>List\<close>

text \<open>
  C3, as stated: for every filter mapping and every limit, \<open>list\<close> returns a flat
  sequence with one element per matching row. It does not: with three rows stored, no
  filter and a limit of 100, what comes back does not have three elements; for the
  filter key \<open>%s\<close> the client's formatting raises; and a negative limit is refused
  by the engine.
\<close>

theorem list_is_flat_counterexample:
  "\<not> (\<exists>rss. (list_tidb demo_engine None 100 demo_table :: error + int OutputData list list) = Inr rss
          \<and> length rss = length demo_table)
   \<and> (list_tidb demo_engine (Some [(''%s'', PStr ''v'')]) 100 demo_table
         :: error + int OutputData list list) = Inl TypeError
   \<and> (list_tidb demo_engine None (- 1) demo_table :: error + int OutputData list list)
        = Inl ProgrammingError"
  by (simp add: list_tidb_def execute_list_def select_list_def filter_conditions_def
      format_defs member_path_def demo_table_def demo_engine_def)

text \<open>
  C3, amended. For every table, every filter mapping (or none) whose keys are plain
  member names and every limit that is not negative, \<open>list\<close> returns a sequence of
  exactly one element, and that element is the sequence of records: one for each of the
  first \<open>limit\<close> matching rows, in scan order, with no score.
\<close>

theorem list_is_nested:
  assumes "0 \<le> limit"
      and "plain_filters filters"
  shows "\<exists>rs. list_tidb eng filters limit tbl = Inr [rs]
           \<and> int (length rs) \<le> limit
           \<and> rs = map (\<lambda>r. \<lparr>id' = Some (row_id r), score = None,
                              payload = Some (decode_payload (row_payload r))\<rparr>)
                     (take (nat limit) (filter (matches_filters eng filters) tbl))"
  using assms(1)
  by (simp add: list_tidb_def execute_list_plain [OF assms(2)] select_list_rows where_matches
      comp_def)

theorem list_is_nested_witness:
  "list_tidb demo_engine (Some [(''k'', PStr ''v'')]) 1 demo_table =
     Inr [[\<lparr>id' = Some ''a'', score = None, payload = Some [(''k'', JString ''v'')]\<rparr>]]"
proof -
  have h1: "(0::int) \<le> 1" by simp
  have h2: "plain_filters (Some [(''k'', PStr ''v'')])"
    by (simp add: plain_filters_def plain_key_def plain_char_def digit_char_def)
  from list_is_nested [OF h1 h2, of demo_engine demo_table]
  show ?thesis
    by (simp add: matches_filters_def member_path_def demo_table_def demo_engine_def)
qed

subsection \<open>Filters\<close>




subsection \<open>Payloads of returned records\<close>



subsection \<open>Unknown identifiers and partial updates\<close>

text \<open>
  C5. For an identifier that no row of the table has, \<open>get\<close> returns None and
  \<open>update\<close> and \<open>delete\<close> return without an error and leave the table as it
  was.
\<close>

theorem unknown_id_is_absent:
  assumes "vector_id \<notin> set (map row_id tbl)"
  shows "(get vector_id tbl :: error + 'd OutputData option) = Inr None
       \<and> update vector_id vector payload' tbl = Inr tbl
       \<and> delete vector_id tbl = Inr tbl"
proof -
  have none: "filter (\<lambda>r. row_id r = vector_id) tbl = []"
    using assms by (auto simp: filter_empty_conv)
  have all: "filter (\<lambda>r. row_id r \<noteq> vector_id) tbl = tbl"
    using assms by (auto intro: filter_True)
  have same: "update_by_id us vector_id tbl = tbl" for us :: "'a assignment list"
    unfolding update_by_id_def using assms by (intro map_idI) auto
  show ?thesis
    by (simp add: get_def select_by_id_def none delete_def delete_by_id_def all update_def same Let_def)
qed

theorem unknown_id_is_absent_witness:
  "''zz'' \<notin> set (map row_id demo_table)
   \<and> (get ''zz'' demo_table :: error + int OutputData option) = Inr None
   \<and> update ''zz'' (Some [5, 5]) (Some []) demo_table = Inr demo_table
   \<and> delete ''zz'' demo_table = Inr demo_table"
proof -
  have h: "''zz'' \<notin> set (map row_id demo_table)" by (simp add: demo_table_def)
  show ?thesis using h unknown_id_is_absent [OF h] by simp
qed

text \<open>
  C8. \<open>update\<close> with neither a vector nor a payload changes nothing. With the vector
  alone, the rows with the given identifier get the new vector and keep their payload;
  with the payload alone they get the new payload and keep their vector. Every other row
  is unchanged, and no row is added, removed or renamed.
\<close>

theorem update_is_partial:
  "update vector_id None None tbl = Inr tbl
   \<and> (\<exists>tbl'. update vector_id (Some v) None tbl = Inr tbl' \<and> length tbl' = length tbl
        \<and> (\<forall>i < length tbl. row_id (tbl' ! i) = row_id (tbl ! i)
              \<and> row_payload (tbl' ! i) = row_payload (tbl ! i)
              \<and> (if row_id (tbl ! i) = vector_id then row_vector (tbl' ! i) = v
                  else tbl' ! i = tbl ! i)))
   \<and> (\<exists>tbl'. update vector_id None (Some p) tbl = Inr tbl' \<and> length tbl' = length tbl
        \<and> (\<forall>i < length tbl. row_id (tbl' ! i) = row_id (tbl ! i)
              \<and> row_vector (tbl' ! i) = row_vector (tbl ! i)
              \<and> (if row_id (tbl ! i) = vector_id then row_payload (tbl' ! i) = Some p
                  else tbl' ! i = tbl ! i)))"
  by (simp add: update_def update_by_id_def)

theorem update_is_partial_witness:
  "update ''a'' None None demo_table = Inr demo_table
   \<and> update ''a'' (Some [7, 7]) None demo_table =
       Inr [\<lparr>row_id = ''a'', row_vector = [7, 7], row_payload = Some [(''k'', JString ''v'')]\<rparr>,
            demo_table ! 1, demo_table ! 2]
   \<and> update ''b'' None (Some [(''n'', JInt 3)]) demo_table =
       Inr [demo_table ! 0,
            \<lparr>row_id = ''b'', row_vector = [0, 1], row_payload = Some [(''n'', JInt 3)]\<rparr>,
            demo_table ! 2]"
  using update_is_partial [of "''a''" demo_table "[7, 7]" "[(''n'', JInt 3)]"]
  by (simp add: update_def update_by_id_def demo_table_def)

subsection \<open>Insert\<close>






subsection \<open>Configuration\<close>

lemma declared_required:
  "(name, ty, None) \<in> set declared_fields \<Longrightarrow> name \<in> set required_fields"
  by (auto simp: declared_fields_def required_fields_def)

lemma required_declared:
  "name \<in> set required_fields \<Longrightarrow> (name, TStr, None) \<in> set declared_fields"
  by (auto simp: declared_fields_def required_fields_def)

lemma not_truthy:
  "(\<not> truthy v) = (v = PNone \<or> v = PStr [] \<or> v = PInt 0 \<or> v = PBool False)"
  by (cases v) auto

lemma falsy_required:
  "(\<not> truthy (values_get values field)) =
     (missing_or_empty values field
        \<or> (\<exists>v. map_of values field = Some v \<and> (v = PInt 0 \<or> v = PBool False)))"
  by (auto simp: values_get_def missing_or_empty_def not_truthy split: option.splits)

lemma refused_valueI:
  "(name, ty, dflt) \<in> set declared_fields \<Longrightarrow> map_of values name = Some v \<Longrightarrow>
     validate_field lib ty v = None \<Longrightarrow> refused_value lib values"
  unfolding refused_value_def by (rule bexI [of _ "(name, ty, dflt)"]) simp_all

lemma before_validators_raise:
  "(\<exists>e. before_validators values = Inl e) =
     ((\<exists>name\<in>set (map fst values). name \<notin> set model_fields)
        \<or> (\<exists>field\<in>set required_fields. \<not> truthy (values_get values field)))"
proof -
  have x: "(set (map fst values) - set model_fields = {}) =
             (\<not> (\<exists>name\<in>set (map fst values). name \<notin> set model_fields))"
    by blast
  have m: "(filter (\<lambda>field. \<not> truthy (values_get values field)) required_fields = []) =
             (\<not> (\<exists>field\<in>set required_fields. \<not> truthy (values_get values field)))"
    by (auto simp: filter_empty_conv)
  show ?thesis
  proof (cases "set (map fst values) - set model_fields = {}")
    case True
    note no_extra = this
    show ?thesis
    proof (cases "filter (\<lambda>field. \<not> truthy (values_get values field)) required_fields = []")
      case True
      with no_extra have "before_validators values = Inr values"
        by (simp add: before_validators_def validate_extra_fields_def check_required_fields_def)
      with True no_extra show ?thesis
        unfolding x m by simp
    next
      case False
      with no_extra have "\<exists>e. before_validators values = Inl e"
        by (simp add: before_validators_def validate_extra_fields_def check_required_fields_def)
      with False show ?thesis
        unfolding m by simp
    qed
  next
    case False
    then have "\<exists>e. before_validators values = Inl e"
      by (simp add: before_validators_def validate_extra_fields_def)
    with False show ?thesis
      unfolding x by simp
  qed
qed

lemma before_validators_pass:
  "before_validators values = Inr values1 \<Longrightarrow> values1 = values"
  by (auto simp: before_validators_def validate_extra_fields_def check_required_fields_def
      Let_def split: sum.splits if_splits)

lemma validate_fields_raise:
  "(\<exists>e. validate_fields lib values = Inl e) =
     (\<exists>f\<in>set declared_fields. field_value lib values f = None)"
  by (auto simp: validate_fields_def Let_def filter_empty_conv)

lemma validate_fields_pass:
  "\<not> (\<exists>f\<in>set declared_fields. field_value lib values f = None) \<Longrightarrow>
     \<exists>config. validate_fields lib values = Inr config \<and> map fst config = model_fields"
  by (auto simp: validate_fields_def Let_def filter_empty_conv model_fields_def comp_def)

text \<open>
  C9, as stated: validation raises exactly when a required field is missing or empty or
  an undeclared field is supplied. With the number 5 for \<open>host\<close> and nothing
  missing, empty or undeclared, it raises all the same: a \<open>str\<close> field refuses a
  number.
\<close>

theorem config_validation_counterexample:
  "TiDBConfig demo_pydantic number_host_config = Inl (FieldsNotValid [''host''])
   \<and> \<not> (\<exists>field\<in>set required_fields. missing_or_empty number_host_config field)
   \<and> \<not> (\<exists>name\<in>set (map fst number_host_config). name \<notin> set model_fields)"
  by (simp add: TiDBConfig_def before_validators_def validate_extra_fields_def
      check_required_fields_def validate_fields_def required_fields_def model_fields_def
      declared_fields_def values_get_def missing_or_empty_def number_host_config_def
      insert_Diff_if)

text \<open>
  C9, amended. Validation raises exactly when one of \<open>host\<close>, \<open>user\<close>,
  \<open>password\<close>, \<open>database\<close> is missing or empty, or the input has a field that
  is not declared, or a supplied value is refused for the declared type of its field. A
  configuration with none of the three is accepted, with a value for every declared
  field. When validation raises, no connection has been attempted.
\<close>

theorem config_validation:
  "((\<exists>e. TiDBConfig lib values = Inl e) \<longleftrightarrow>
      (\<exists>field\<in>set required_fields. missing_or_empty values field)
        \<or> (\<exists>name\<in>set (map fst values). name \<notin> set model_fields)
        \<or> refused_value lib values)
   \<and> (\<not> ((\<exists>field\<in>set required_fields. missing_or_empty values field)
           \<or> (\<exists>name\<in>set (map fst values). name \<notin> set model_fields)
           \<or> refused_value lib values) \<longrightarrow>
        (\<exists>config. TiDBConfig lib values = Inr config \<and> map fst config = model_fields))
   \<and> ((\<exists>e. TiDBConfig lib values = Inl e) \<longrightarrow> snd (create_vector_store lib values) = 0)"
proof -
  let ?missing = "\<exists>field\<in>set required_fields. missing_or_empty values field"
  let ?extra = "\<exists>name\<in>set (map fst values). name \<notin> set model_fields"
  let ?falsy = "\<exists>field\<in>set required_fields. \<not> truthy (values_get values field)"
  let ?none = "\<exists>f\<in>set declared_fields. field_value lib values f = None"
  have refused_none: ?none if "refused_value lib values"
  proof -
    from that obtain name ty dflt where f: "(name, ty, dflt) \<in> set declared_fields"
      and c: "case map_of values name of None \<Rightarrow> False
              | Some v \<Rightarrow> validate_field lib ty v = None"
      by (auto simp: refused_value_def)
    from c have "field_value lib values (name, ty, dflt) = None"
      by (simp split: option.splits)
    with f show ?thesis by blast
  qed
  have none_refused: "refused_value lib values \<or> ?falsy" if ?none
  proof -
    from that obtain name ty dflt where f: "(name, ty, dflt) \<in> set declared_fields"
      and n: "field_value lib values (name, ty, dflt) = None"
      by auto
    show ?thesis
    proof (cases "map_of values name")
      case None
      with n have "dflt = None" by simp
      with f have "name \<in> set required_fields" by (simp add: declared_required)
      moreover from None have "\<not> truthy (values_get values name)"
        by (simp add: values_get_def)
      ultimately show ?thesis by blast
    next
      case (Some v)
      with n have "validate_field lib ty v = None" by simp
      with f Some have "refused_value lib values" by (rule refused_valueI)
      then show ?thesis ..
    qed
  qed
  have falsy_cases: "?missing \<or> refused_value lib values" if ?falsy
  proof -
    from that obtain field where r: "field \<in> set required_fields"
      and f: "\<not> truthy (values_get values field)"
      by auto
    from f [unfolded falsy_required] show ?thesis
    proof
      assume "missing_or_empty values field"
      with r show ?thesis by blast
    next
      assume "\<exists>v. map_of values field = Some v \<and> (v = PInt 0 \<or> v = PBool False)"
      then obtain v where v: "map_of values field = Some v" "validate_field lib TStr v = None"
        by auto
      with required_declared [OF r] have "refused_value lib values"
        by (rule refused_valueI)
      then show ?thesis ..
    qed
  qed
  have missing_falsy: "?missing \<Longrightarrow> ?falsy"
    by (auto simp: falsy_required)
  have raise: "(\<exists>e. TiDBConfig lib values = Inl e) = (?extra \<or> ?falsy \<or> ?none)"
  proof (cases "\<exists>e. before_validators values = Inl e")
    case True
    then have "\<exists>e. TiDBConfig lib values = Inl e"
      by (auto simp: TiDBConfig_def)
    with True show ?thesis
      by (simp only: before_validators_raise) blast
  next
    case False
    then obtain values1 where v: "before_validators values = Inr values1"
      by (cases "before_validators values") auto
    with before_validators_pass [OF v]
    have "TiDBConfig lib values = validate_fields lib values"
      by (simp add: TiDBConfig_def)
    with False show ?thesis
      by (simp only: before_validators_raise validate_fields_raise) blast
  qed
  have iff: "(\<exists>e. TiDBConfig lib values = Inl e) = (?missing \<or> ?extra \<or> refused_value lib values)"
    unfolding raise using refused_none none_refused falsy_cases missing_falsy by blast
  have accepted: "\<exists>config. TiDBConfig lib values = Inr config \<and> map fst config = model_fields"
    if "\<not> (?missing \<or> ?extra \<or> refused_value lib values)"
  proof -
    from that iff have no: "\<not> (\<exists>e. TiDBConfig lib values = Inl e)" by simp
    with raise have n: "\<not> ?none" and b: "\<not> (\<exists>e. before_validators values = Inl e)"
      by (simp_all add: before_validators_raise)
    from b obtain values1 where v: "before_validators values = Inr values1"
      by (cases "before_validators values") auto
    from before_validators_pass [OF v] v have "TiDBConfig lib values = validate_fields lib values"
      by (simp add: TiDBConfig_def)
    with validate_fields_pass [OF n] show ?thesis by simp
  qed
  have unconnected: "snd (create_vector_store lib values) = 0" if "\<exists>e. TiDBConfig lib values = Inl e"
    using that by (auto simp: create_vector_store_def)
  from iff accepted unconnected show ?thesis by blast
qed

theorem config_validation_witness:
  "TiDBConfig demo_pydantic demo_config =
     Inr [(''host'', PStr ''db.example''), (''port'', PInt 4000), (''user'', PStr ''root''),
          (''password'', PStr ''pw''), (''database'', PStr ''test''),
          (''collection_name'', PStr ''mem0''), (''embedding_model_dims'', PInt 1536),
          (''ssl_disabled'', PBool False), (''ssl_ca'', PNone), (''ssl_cert'', PNone),
          (''ssl_key'', PNone), (''ssl_verify_cert'', PBool True),
          (''ssl_verify_identity'', PBool True)]
   \<and> create_vector_store demo_pydantic ((''host'', PStr []) # tl demo_config) =
       (Inl (MissingRequiredFields [''host'']), 0)
   \<and> TiDBConfig demo_pydantic ((''hots'', PStr ''x'') # demo_config) =
       Inl (ExtraFieldsNotAllowed {''hots''})"
  using config_validation [of demo_pydantic demo_config]
  by (simp add: create_vector_store_def TiDBConfig_def before_validators_def
      validate_extra_fields_def check_required_fields_def validate_fields_def
      required_fields_def model_fields_def declared_fields_def values_get_def
      demo_config_def demo_pydantic_def insert_Diff_if)


end
